theory Spec2Isabelle
  imports Main
begin

section \<open>The camera session controller of \<open>QRScanner.tsx\<close>\<close>

text \<open>
  The component \<open>QRScanner\<close> keeps its controller state in React state variables
  (\<open>useState\<close>) and in refs (\<open>useRef\<close>). The model keeps both in one record.
  A handler created during a render reads the state variables through its closure, that is,
  with the values of that render; it reads refs at the moment of the call. So every handler
  of the model takes the values its closure holds as a \<open>view\<close> and the current state as
  a \<open>state\<close>: reads of \<open>devices\<close>, \<open>selectedDeviceId\<close>, \<open>isScanning\<close> and
  \<open>isLoadingCameras\<close> go to the view, reads of refs and all writes go to the state.

  An \<open>async\<close> function is cut at its \<open>await\<close>s: the part up to the first \<open>await\<close> is
  one function, and each resumption (resolved or rejected) is another one.

  What the component does to its collaborators (the logger, the scanner service of the
  library \<open>qr-scanner-library\<close>, the camera platform) is recorded, in order, in the field
  \<open>trace\<close>.
\<close>

datatype LogLevel = INFO | WARN | ERROR | DEBUG

record MediaDeviceInfo =
  deviceId :: string
  label :: string

text \<open>
  \<open>Log l m d\<close> is the call \<open>remoteLog('Client', l, 'QRScanner', m, d)\<close>, where \<open>d\<close> is the
  message of the error passed as data, if any. \<open>SvcNew i d\<close> is a successful
  \<open>new ScannerService(options)\<close> with \<open>options.deviceId = d\<close>; \<open>i\<close> numbers the instances
  of the service in the order of their construction. \<open>SvcStart i\<close> and \<open>SvcStop i\<close> are the
  calls \<open>start()\<close> and \<open>stop()\<close> on instance \<open>i\<close>. \<open>GetUserMedia\<close> and \<open>ListDevices\<close>
  are the calls \<open>navigator.mediaDevices.getUserMedia(...)\<close> and
  \<open>CameraManager.listDevices()\<close>; \<open>TmpTracksStopped\<close> is the release of every track of
  the stream acquired for priming.

  The library is not part of the repository; of what it does the trace records one thing.
  \<open>StreamAcquired i\<close> says that the acquisition begun by \<open>start()\<close> on instance \<open>i\<close> has
  resolved, so that instance \<open>i\<close> now holds a hardware stream. It is written when
  \<open>await scannerServiceRef.current.start()\<close> resumes normally, which is how the component
  learns of it.
\<close>

datatype effect =
    Log LogLevel string "string option"
  | SvcNew nat string
  | SvcStart nat
  | SvcStop nat
  | StreamAcquired nat
  | GetUserMedia
  | TmpTracksStopped
  | ListDevices

text \<open>
  \<open>videoRef\<close> says whether \<open>videoRef.current\<close> is an element; \<open>scannerServiceRef\<close> holds
  the number of the instance the ref points to; \<open>cancelled\<close> is the variable of that name of
  the mount effect; \<open>created\<close> counts the instances constructed so far.
\<close>

record state =
  videoRef :: bool
  scannerServiceRef :: "nat option"
  hasAutoStartedRef :: bool
  devices :: "MediaDeviceInfo list"
  selectedDeviceId :: string
  isScanning :: bool
  isLoadingCameras :: bool
  scanResult :: "string option"
  error :: "string option"
  cancelled :: bool
  created :: nat
  trace :: "effect list"

record view =
  v_devices :: "MediaDeviceInfo list"
  v_selectedDeviceId :: string
  v_isScanning :: bool
  v_isLoadingCameras :: bool

definition view_of :: "state \<Rightarrow> view" where
  "view_of s = \<lparr> v_devices = devices s, v_selectedDeviceId = selectedDeviceId s,
                 v_isScanning = isScanning s, v_isLoadingCameras = isLoadingCameras s \<rparr>"

definition initState :: state where
  "initState = \<lparr> videoRef = True, scannerServiceRef = None, hasAutoStartedRef = False,
                 devices = [], selectedDeviceId = [], isScanning = False,
                 isLoadingCameras = True, scanResult = None, error = None,
                 cancelled = False, created = 0, trace = [] \<rparr>"

definition emit :: "effect \<Rightarrow> state \<Rightarrow> state" where
  "emit e s = s\<lparr>trace := trace s @ [e]\<rparr>"

definition log :: "LogLevel \<Rightarrow> string \<Rightarrow> string option \<Rightarrow> state \<Rightarrow> state" where
  "log l m d s = emit (Log l m d) s"

text \<open>A template literal \<open>'${x}'\<close> puts the text between two apostrophes.\<close>

definition quoted :: "string \<Rightarrow> string" where
  "quoted x = [CHR 0x27] @ x @ [CHR 0x27]"

subsection \<open>\<open>handleStopScan\<close> and the callbacks of the scanner service\<close>

definition stopService :: "state \<Rightarrow> state" where
  "stopService s =
     (case scannerServiceRef s of
        None \<Rightarrow> s
      | Some i \<Rightarrow> (emit (SvcStop i) s)\<lparr>scannerServiceRef := None\<rparr>)"

definition handleStopScan :: "state \<Rightarrow> state" where
  "handleStopScan s =
     (stopService (log INFO ''Stop scan button clicked.'' None s))\<lparr>isScanning := False\<rparr>"

definition handleScanSuccess :: "string \<Rightarrow> state \<Rightarrow> state" where
  "handleScanSuccess r s = s\<lparr>scanResult := Some r, error := None\<rparr>"

definition handleError :: "string \<Rightarrow> state \<Rightarrow> state" where
  "handleError msg s =
     (log ERROR ''Scanner Error'' (Some msg) s)
       \<lparr>error := Some (if msg \<noteq> [] then msg
                       else ''An unknown error occurred during scanning.''),
        scanResult := None,
        isScanning := False\<rparr>"

subsection \<open>\<open>handleStartScan\<close>\<close>

text \<open>
  The device id resolved by lines 122 to 126. \<open>None\<close> stands for \<open>undefined\<close> or
  \<open>null\<close>. \<open>deviceIdOverride ?? selectedDeviceId\<close> takes the override unless it is
  \<open>undefined\<close>; \<open>!deviceIdToUse\<close> holds of \<open>undefined\<close> and of the empty string.
  The second component says whether the first catalog entry was taken (and logged).
\<close>

definition falsy :: "string option \<Rightarrow> bool" where
  "falsy d = (case d of None \<Rightarrow> True | Some x \<Rightarrow> x = [])"

definition resolveDeviceId :: "view \<Rightarrow> string option \<Rightarrow> string option \<times> bool" where
  "resolveDeviceId v deviceIdOverride =
     (let deviceIdToUse =
            (case deviceIdOverride of Some d \<Rightarrow> Some d | None \<Rightarrow> Some (v_selectedDeviceId v))
      in case v_devices v of
           d0 # _ \<Rightarrow> if falsy deviceIdToUse then (Some (deviceId d0), True)
                     else (deviceIdToUse, False)
         | [] \<Rightarrow> (deviceIdToUse, False))"

text \<open>
  The \<open>catch\<close> block of lines 180 to 185, with the message of the error caught.
\<close>

definition catchStart :: "string \<Rightarrow> state \<Rightarrow> state" where
  "catchStart msg s =
     (handleError msg
        (log ERROR ''Error initializing or starting ScannerService'' (Some msg) s))
       \<lparr>isScanning := False\<rparr>"

text \<open>
  Lines 139 to 164, up to the \<open>await\<close>. \<open>ctorError\<close> is the outcome of
  \<open>new ScannerService(options)\<close>: \<open>None\<close> when it returns an instance, \<open>Some msg\<close> when
  it throws an error with that message (the \<open>catch\<close> block then runs at once).
  \<open>start()\<close> is asynchronous: its failure is the rejection of its promise, which arrives
  as a resumption.
\<close>

definition beginScan :: "string \<Rightarrow> string option \<Rightarrow> state \<Rightarrow> state" where
  "beginScan deviceIdToUse ctorError s =
     (let s1 = log INFO (''Starting scan with deviceId: '' @ quoted deviceIdToUse) None s;
          s2 = s1\<lparr>error := None, scanResult := None, isScanning := True\<rparr>;
          s3 = stopService s2;
          s4 = log INFO ''Initializing ScannerService...'' None s3
      in case ctorError of
           Some msg \<Rightarrow> catchStart msg s4
         | None \<Rightarrow>
             (let i = created s4;
                  s5 = (emit (SvcNew i deviceIdToUse) s4)
                         \<lparr>scannerServiceRef := Some i, created := Suc i\<rparr>;
                  s6 = log INFO ''ScannerService initialized. Calling start()...'' None s5
              in emit (SvcStart i) s6))"

definition handleStartScan ::
  "view \<Rightarrow> string option \<Rightarrow> string option \<Rightarrow> state \<Rightarrow> state" where
  "handleStartScan v deviceIdOverride ctorError s =
     (if \<not> videoRef s
      then s\<lparr>error := Some ''Video element reference is not available.''\<rparr>
      else
        (let (deviceIdToUse, first) = resolveDeviceId v deviceIdOverride;
             s1 = (if first
                   then log INFO (''No specific device selected, using first available deviceId: ''
                                  @ quoted (the deviceIdToUse)) None s
                   else s)
         in case deviceIdToUse of
              None \<Rightarrow>
                log WARN ''Start scan aborted: No usable device ID found.'' None
                  (s1\<lparr>error := Some ''No camera device available or selected.''\<rparr>)
            | Some d \<Rightarrow>
                if v_isScanning v
                then log WARN ''Start scan called while already scanning.'' None s1
                else beginScan d ctorError s1))"

text \<open>
  The resumptions of \<open>handleStartScan\<close>: after \<open>await scannerServiceRef.current.start()\<close>
  (resolved: lines 165 to 168, up to the next \<open>await\<close>; rejected: the \<open>catch\<close> block), and
  after \<open>await CameraManager.listDevices()\<close> (resolved: lines 171 to 175; rejected: line
  177). \<open>startResolved i\<close> is the resumption of the call that started instance \<open>i\<close>; the
  source does nothing with \<open>i\<close> there: it does not look at \<open>scannerServiceRef\<close> or at
  \<open>isScanning\<close> after the \<open>await\<close>.
\<close>

definition startResolved :: "nat \<Rightarrow> state \<Rightarrow> state" where
  "startResolved i s =
     emit ListDevices
       (log INFO ''Scanner started successfully via start().'' None
          (emit (StreamAcquired i) s))"

definition startRejected :: "string \<Rightarrow> state \<Rightarrow> state" where
  "startRejected msg s = catchStart msg s"

definition hasBetterLabels :: "MediaDeviceInfo list \<Rightarrow> bool" where
  "hasBetterLabels videoDevices = list_ex (\<lambda>d. label d \<noteq> []) videoDevices"

definition refreshResolved :: "MediaDeviceInfo list \<Rightarrow> state \<Rightarrow> state" where
  "refreshResolved videoDevices s =
     (if hasBetterLabels videoDevices then s\<lparr>devices := videoDevices\<rparr> else s)"

definition refreshRejected :: "string \<Rightarrow> state \<Rightarrow> state" where
  "refreshRejected msg s = log WARN ''Failed to re-fetch devices after start'' (Some msg) s"

subsection \<open>The other handlers and the auto-start effect\<close>

definition handleDeviceChange :: "view \<Rightarrow> string \<Rightarrow> string option \<Rightarrow> state \<Rightarrow> state" where
  "handleDeviceChange v newId ctorError s =
     (let s1 = s\<lparr>selectedDeviceId := newId\<rparr>
      in if v_isScanning v then handleStopScan s1
         else handleStartScan v (Some newId) ctorError s1)"

definition handleToggleScan :: "view \<Rightarrow> string option \<Rightarrow> state \<Rightarrow> state" where
  "handleToggleScan v ctorError s =
     (if v_isScanning v then handleStopScan s else handleStartScan v None ctorError s)"

text \<open>
  The effect of lines 189 to 195. \<open>selectedDeviceId || devices[0].deviceId\<close> takes the
  selection unless it is the empty string.
\<close>

definition autoStartFires :: "view \<Rightarrow> state \<Rightarrow> bool" where
  "autoStartFires v s =
     (\<not> v_isLoadingCameras v \<and> v_devices v \<noteq> [] \<and> \<not> v_isScanning v \<and> \<not> hasAutoStartedRef s)"

definition autoStartEffect :: "view \<Rightarrow> string option \<Rightarrow> state \<Rightarrow> state" where
  "autoStartEffect v ctorError s =
     (if autoStartFires v s
      then (let idToStart = (if v_selectedDeviceId v \<noteq> [] then v_selectedDeviceId v
                             else deviceId (hd (v_devices v)))
            in handleStartScan v (Some idToStart) ctorError (s\<lparr>hasAutoStartedRef := True\<rparr>))
      else s)"

subsection \<open>The mount effect and its cleanup\<close>

text \<open>The decimal rendering of \<open>videoDevices.length\<close> in a template literal.\<close>

function string_of_nat :: "nat \<Rightarrow> string" where
  "string_of_nat n =
     (if n < 10 then [''0123456789'' ! n]
      else string_of_nat (n div 10) @ [''0123456789'' ! (n mod 10)])"
  by pat_completeness auto
termination
  by (relation "measure id") auto

text \<open>
  \<open>primeAndList\<close>, cut at its two \<open>await\<close>s. \<open>hasGetUserMedia\<close> is the test
  \<open>navigator.mediaDevices?.getUserMedia\<close>; when it fails the function goes on to the
  listing without suspending.
\<close>

definition listPhase :: "state \<Rightarrow> state" where
  "listPhase s =
     emit ListDevices
       ((log INFO ''Fetching camera devices...'' None s)\<lparr>isLoadingCameras := True\<rparr>)"

definition mountEffect :: "bool \<Rightarrow> state \<Rightarrow> state" where
  "mountEffect hasGetUserMedia s =
     (let s1 = log INFO ''Priming camera permission via getUserMedia...'' None s
      in if hasGetUserMedia then emit GetUserMedia s1 else listPhase s1)"

definition primeResolved :: "state \<Rightarrow> state" where
  "primeResolved s = listPhase (emit TmpTracksStopped s)"

definition primeRejected :: "string \<Rightarrow> state \<Rightarrow> state" where
  "primeRejected msg s =
     listPhase (log WARN ''Camera permission not granted or unavailable'' (Some msg) s)"

definition finallyLoaded :: "state \<Rightarrow> state" where
  "finallyLoaded s =
     (if \<not> cancelled s
      then log INFO ''Finished loading cameras.'' None (s\<lparr>isLoadingCameras := False\<rparr>)
      else s)"

definition listResolved :: "MediaDeviceInfo list \<Rightarrow> state \<Rightarrow> state" where
  "listResolved videoDevices s =
     (if cancelled s then s
      else
        (let s1 = log INFO (''Devices found: '' @ string_of_nat (length videoDevices)) None s;
             s2 = s1\<lparr>devices := videoDevices\<rparr>;
             s3 = (case videoDevices of
                     d0 # _ \<Rightarrow>
                       (log INFO (''Selecting first deviceId: '' @ quoted (deviceId d0)) None s2)
                         \<lparr>selectedDeviceId := deviceId d0\<rparr>
                   | [] \<Rightarrow>
                       (log INFO ''No video devices found.'' None s2)
                         \<lparr>selectedDeviceId := []\<rparr>)
         in finallyLoaded (s3\<lparr>error := None\<rparr>)))"

definition listRejected :: "string \<Rightarrow> state \<Rightarrow> state" where
  "listRejected msg s =
     (if cancelled s then s
      else finallyLoaded
             ((log ERROR ''Error listing devices'' (Some msg) s)
                \<lparr>error := Some (''Failed to list cameras: '' @ msg),
                 devices := [],
                 selectedDeviceId := []\<rparr>))"

definition unmountCleanup :: "state \<Rightarrow> state" where
  "unmountCleanup s =
     (let s1 = log INFO ''Cleanup on unmount.'' None (s\<lparr>cancelled := True\<rparr>)
      in case scannerServiceRef s1 of
           None \<Rightarrow> s1
         | Some i \<Rightarrow>
             (emit (SvcStop i)
                (log INFO ''Stopping scanner during unmount cleanup.'' None s1))
               \<lparr>scannerServiceRef := None\<rparr>)"

subsection \<open>Runs of the controller\<close>

text \<open>
  Everything that can happen to a mounted component is an event: the mount effect and the
  resumptions of \<open>primeAndList\<close>, the calls of the handlers (each with the view of the render
  that created the handler, which may be stale), the resumptions of \<open>handleStartScan\<close>, the
  callbacks of the scanner service, a render followed by the auto-start effect (an effect
  sees the values of the render it follows), and the unmount. On unmount React clears
  \<open>videoRef.current\<close> and runs the cleanup. The events that may construct a scanner service
  carry the outcome of the constructor.
\<close>

datatype event =
    Mount bool
  | PrimeResolved
  | PrimeRejected string
  | ListResolved "MediaDeviceInfo list"
  | ListRejected string
  | Unmount
  | Render "string option"
  | StartScan view "string option" "string option"
  | StopScan
  | DeviceChange view string "string option"
  | ToggleScan view "string option"
  | StartResolved nat
  | StartRejected string
  | RefreshResolved "MediaDeviceInfo list"
  | RefreshRejected string
  | ScanSuccess string
  | ScanError string

fun step :: "event \<Rightarrow> state \<Rightarrow> state" where
  "step (Mount g) s = mountEffect g s"
| "step PrimeResolved s = primeResolved s"
| "step (PrimeRejected m) s = primeRejected m s"
| "step (ListResolved ds) s = listResolved ds s"
| "step (ListRejected m) s = listRejected m s"
| "step Unmount s = unmountCleanup (s\<lparr>videoRef := False\<rparr>)"
| "step (Render c) s = autoStartEffect (view_of s) c s"
| "step (StartScan v d c) s = handleStartScan v d c s"
| "step StopScan s = handleStopScan s"
| "step (DeviceChange v d c) s = handleDeviceChange v d c s"
| "step (ToggleScan v c) s = handleToggleScan v c s"
| "step (StartResolved i) s = startResolved i s"
| "step (StartRejected m) s = startRejected m s"
| "step (RefreshResolved ds) s = refreshResolved ds s"
| "step (RefreshRejected m) s = refreshRejected m s"
| "step (ScanSuccess r) s = handleScanSuccess r s"
| "step (ScanError m) s = handleError m s"

fun run :: "event list \<Rightarrow> state \<Rightarrow> state" where
  "run [] s = s"
| "run (e # es) s = run es (step e s)"

text \<open>
  The hardware streams open after a trace. The stream of instance \<open>i\<close> is open from the
  moment its acquisition resolves until a call of \<open>stop()\<close> on instance \<open>i\<close> after that
  moment. A \<open>stop()\<close> that comes before the acquisition has resolved finds no stream to
  release; the source never awaits \<open>stop()\<close>, and whether the acquisition still resolves
  afterwards is up to the library: the runs in which it does are those with
  \<open>StartResolved i\<close> after \<open>SvcStop i\<close>. The stream acquired for priming is released in
  the step that receives it and is not counted.
\<close>

fun track :: "nat list \<Rightarrow> effect \<Rightarrow> nat list" where
  "track os (StreamAcquired i) = os @ [i]"
| "track os (SvcStop i) = removeAll i os"
| "track os _ = os"

definition openStreams :: "effect list \<Rightarrow> nat list" where
  "openStreams tr = foldl track [] tr"

text \<open>How often the auto-start effect issues its start during a run.\<close>

fun autoStarts :: "event list \<Rightarrow> state \<Rightarrow> nat" where
  "autoStarts [] s = 0"
| "autoStarts (e # es) s =
     (case e of
        Render c \<Rightarrow> (if autoStartFires (view_of s) s then 1 else 0)
      | _ \<Rightarrow> 0) + autoStarts es (step e s)"

subsection \<open>The controls\<close>

text \<open>
  The select and the button of the rendered component (lines 226 to 231 and 245 to 251) are
  the callers of \<open>handleDeviceChange\<close> and \<open>handleToggleScan\<close>. A disabled control
  delivers no event. A control shows the latest render, so what the user does reaches the
  handlers of that render, whose view is the view of the current state.
\<close>

definition selectDisabled :: "view \<Rightarrow> bool" where
  "selectDisabled v = (v_isScanning v \<or> v_isLoadingCameras v \<or> v_devices v = [])"

definition toggleDisabled :: "view \<Rightarrow> bool" where
  "toggleDisabled v = (v_isLoadingCameras v \<or> (v_devices v = [] \<and> \<not> v_isScanning v))"

definition userSelect :: "string \<Rightarrow> string option \<Rightarrow> state \<Rightarrow> state" where
  "userSelect newId ctorError s =
     (if selectDisabled (view_of s) then s
      else handleDeviceChange (view_of s) newId ctorError s)"

definition userToggle :: "string option \<Rightarrow> state \<Rightarrow> state" where
  "userToggle ctorError s =
     (if toggleDisabled (view_of s) then s
      else handleToggleScan (view_of s) ctorError s)"

section \<open>The diagnostic transport \<open>remoteLog\<close>\<close>

text \<open>
  \<open>remoteLog\<close> writes to the console and to the network and returns nothing. The model
  returns the list of what it wrote, in order, together with the exception it throws to its
  caller, if any (\<open>None\<close> when it returns normally); every \<open>try\<close>/\<open>catch\<close> of the source is
  a case distinction on that second component.

  What the platform does is a parameter. Of the auxiliary data only the behaviour of
  \<open>JSON.stringify\<close> on it matters: it yields a text or it throws. \<open>network\<close> says whether
  \<open>navigator.sendBeacon\<close> exists, what a call of it does (returns \<open>true\<close>, returns
  \<open>false\<close>, throws) and what \<open>fetch\<close> does (returns a promise that is fulfilled, returns
  a promise that is rejected, throws). The timestamp and \<open>CLIENT_ID\<close> are parameters too.
  The serialised payload \<open>logData\<close> is represented by the payload itself. Writing to the
  console, \<open>JSON.stringify\<close> of the payload (an object of six strings) and the \<open>Blob\<close>
  constructor are taken not to throw.
\<close>

datatype js_data = Stringifies string | StringifyThrows string

record logPayload =
  p_clientId :: string
  p_source :: string
  p_level :: string
  p_component :: string
  p_message :: string
  p_dataString :: string

text \<open>
  \<open>ConsoleError m e\<close> is \<open>console.error(m)\<close> or \<open>console.error(m, e)\<close>;
  \<open>SendBeacon url body\<close> is the call \<open>navigator.sendBeacon(url, blob)\<close>;
  \<open>Fetch url method body keepalive\<close> is the call of \<open>fetch\<close>. A call is recorded
  whether it returns or throws.
\<close>

datatype out_effect =
    ConsoleError string "string option"
  | ConsoleWarn string
  | ConsoleDebug string
  | ConsoleLog string
  | SendBeacon string logPayload
  | Fetch string string logPayload bool

datatype beacon_outcome = BeaconQueued | BeaconRefused | BeaconThrows string

datatype fetch_outcome = FetchFulfilled | FetchRejected string | FetchThrows string

record network =
  hasSendBeacon :: bool
  sendBeaconResult :: beacon_outcome
  fetchResult :: fetch_outcome

fun levelString :: "LogLevel \<Rightarrow> string" where
  "levelString INFO = ''INFO''"
| "levelString WARN = ''WARN''"
| "levelString ERROR = ''ERROR''"
| "levelString DEBUG = ''DEBUG''"

definition sendWithFetch :: "network \<Rightarrow> logPayload \<Rightarrow> out_effect list \<times> string option" where
  "sendWithFetch net logData =
     (case fetchResult net of
        FetchThrows e \<Rightarrow> ([Fetch ''/log'' ''POST'' logData True], Some e)
      | FetchFulfilled \<Rightarrow> ([Fetch ''/log'' ''POST'' logData True], None)
      | FetchRejected e \<Rightarrow>
          ([Fetch ''/log'' ''POST'' logData True,
            ConsoleError ''[Remote Log] Fetch fallback failed:'' (Some e)], None))"

text \<open>Lines 38 to 46: the text appended for the data, and what the \<open>catch\<close> writes.\<close>

definition stringifyData :: "js_data option \<Rightarrow> string \<times> out_effect list" where
  "stringifyData data =
     (case data of
        None \<Rightarrow> ([], [])
      | Some (Stringifies t) \<Rightarrow> ('' '' @ t, [])
      | Some (StringifyThrows e) \<Rightarrow>
          ('' [Unserializable data]'',
           [ConsoleError ''[Remote Log] Error stringifying log data:'' (Some e)]))"

definition formatMessage ::
  "string \<Rightarrow> string \<Rightarrow> LogLevel \<Rightarrow> string \<Rightarrow> string \<Rightarrow> string \<Rightarrow> string \<Rightarrow> string" where
  "formatMessage timestamp clientId lvl src component message dataString =
     ''['' @ timestamp @ '' - '' @ clientId @ '' - '' @ levelString lvl @ '']: [''
       @ src @ '' - '' @ component @ ''] '' @ message @ dataString"

fun consoleWrite :: "LogLevel \<Rightarrow> string \<Rightarrow> out_effect" where
  "consoleWrite ERROR m = ConsoleError m None"
| "consoleWrite WARN m = ConsoleWarn m"
| "consoleWrite DEBUG m = ConsoleDebug m"
| "consoleWrite INFO m = ConsoleLog m"

text \<open>The body of the \<open>try\<close> of lines 70 to 92.\<close>

definition deliver :: "network \<Rightarrow> logPayload \<Rightarrow> out_effect list \<times> string option" where
  "deliver net logData =
     (if hasSendBeacon net
      then (case sendBeaconResult net of
              BeaconThrows e \<Rightarrow> ([SendBeacon ''/log'' logData], Some e)
            | BeaconQueued \<Rightarrow> ([SendBeacon ''/log'' logData], None)
            | BeaconRefused \<Rightarrow>
                (let (outs, exn) = sendWithFetch net logData
                 in ([SendBeacon ''/log'' logData,
                      ConsoleWarn
                        ''[Remote Log] sendBeacon returned false, attempting fetch fallback.'']
                     @ outs, exn)))
      else sendWithFetch net logData)"

definition remoteLog ::
  "network \<Rightarrow> string \<Rightarrow> string \<Rightarrow> string \<Rightarrow> LogLevel \<Rightarrow> string \<Rightarrow> string \<Rightarrow> js_data option
   \<Rightarrow> out_effect list \<times> string option" where
  "remoteLog net timestamp clientId src lvl component message data =
     (let (dataString, outs0) = stringifyData data;
          formattedMessage = formatMessage timestamp clientId lvl src component message dataString;
          outs1 = outs0 @ [consoleWrite lvl formattedMessage];
          logPayload = \<lparr> p_clientId = clientId, p_source = src, p_level = levelString lvl,
                         p_component = component, p_message = message,
                         p_dataString = dataString \<rparr>;
          (outs2, exn) = deliver net logPayload
      in case exn of
           None \<Rightarrow> (outs1 @ outs2, None)
         | Some e \<Rightarrow>
             (outs1 @ outs2
                @ [ConsoleError ''[Remote Log] Error preparing or sending log:'' (Some e)],
              None))"

fun isNetwork :: "out_effect \<Rightarrow> bool" where
  "isNetwork (SendBeacon u b) = True"
| "isNetwork (Fetch u m b k) = True"
| "isNetwork _ = False"

fun isBeacon :: "out_effect \<Rightarrow> bool" where
  "isBeacon (SendBeacon u b) = True"
| "isBeacon _ = False"

fun isFetch :: "out_effect \<Rightarrow> bool" where
  "isFetch (Fetch u m b k) = True"
| "isFetch _ = False"

section \<open>Example runs\<close>

text \<open>
  The scenario of the specification: the enumeration at mount returns two cameras without
  labels, the first render after it auto-starts the scan on the first camera
  (\<open>autoStarted\<close>: instance 0, acquisition under way), and the acquisition succeeds
  (\<open>scanning\<close>). \<open>emptyCatalog\<close> is the state after an enumeration that found no camera.
\<close>

definition cam1 :: MediaDeviceInfo where
  "cam1 = \<lparr> deviceId = ''cam1'', label = [] \<rparr>"

definition cam2 :: MediaDeviceInfo where
  "cam2 = \<lparr> deviceId = ''cam2'', label = [] \<rparr>"

definition loaded :: state where
  "loaded = run [Mount True, PrimeResolved, ListResolved [cam1, cam2]] initState"

definition autoStarted :: state where
  "autoStarted = step (Render None) loaded"

definition scanning :: state where
  "scanning = run [Render None, StartResolved 0] loaded"

definition emptyCatalog :: state where
  "emptyCatalog = run [Mount True, PrimeRejected ''denied'', ListResolved []] initState"

definition cam3 :: MediaDeviceInfo where
  "cam3 = \<lparr> deviceId = ''cam3'', label = ''USB camera'' \<rparr>"

text \<open>
  What may follow the first auto-start: the acquisition succeeds, the refresh finds a third
  camera, the scan is stopped, the cameras are listed again, the user picks the third camera,
  each followed by a render.
\<close>

definition refreshes :: "event list" where
  "refreshes = [StartResolved 0, RefreshResolved [cam1, cam2, cam3], Render None,
                StopScan, Render None, ListResolved [cam1, cam2, cam3], Render None,
                DeviceChange (view_of loaded) ''cam3'' None, Render None]"






text \<open>
  The user stops the auto-started scan with the button while its acquisition is under way
  (\<open>stoppedEarly\<close>). Then either the acquisition resolves and the refresh finds labels
  (\<open>resumedLate\<close>), or the user starts again with the button (\<open>startedAgain\<close>: instance
  1) and both acquisitions resolve (\<open>bothResolved\<close>).
\<close>

definition labelled :: "MediaDeviceInfo list" where
  "labelled = [\<lparr> deviceId = ''cam1'', label = ''Front camera'' \<rparr>,
               \<lparr> deviceId = ''cam2'', label = ''Back camera'' \<rparr>]"

definition stoppedEarly :: state where
  "stoppedEarly = userToggle None autoStarted"

definition resumedLate :: state where
  "resumedLate = run [StartResolved 0, RefreshResolved labelled] stoppedEarly"

definition startedAgain :: state where
  "startedAgain = userToggle None stoppedEarly"

definition bothResolved :: state where
  "bothResolved = run [StartResolved 0, StartResolved 1] startedAgain"

text \<open>
  Two platforms for the transport: one whose beacon refuses and whose fetch is rejected, and
  one without beacon whose \<open>fetch\<close> throws.
\<close>

definition flaky :: network where
  "flaky = \<lparr> hasSendBeacon = True, sendBeaconResult = BeaconRefused,
             fetchResult = FetchRejected ''offline'' \<rparr>"

definition legacy :: network where
  "legacy = \<lparr> hasSendBeacon = False, sendBeaconResult = BeaconQueued,
              fetchResult = FetchThrows ''fetch is not defined'' \<rparr>"

section \<open>Properties of the session controller\<close>

subsection \<open>Evaluating the example runs\<close>

lemmas handler_defs =
  emit_def log_def quoted_def stopService_def handleStopScan_def handleScanSuccess_def
  handleError_def falsy_def resolveDeviceId_def catchStart_def beginScan_def
  handleStartScan_def startResolved_def startRejected_def hasBetterLabels_def
  refreshResolved_def refreshRejected_def handleDeviceChange_def handleToggleScan_def
  autoStartFires_def autoStartEffect_def listPhase_def mountEffect_def primeResolved_def
  primeRejected_def finallyLoaded_def listResolved_def listRejected_def unmountCleanup_def
  view_of_def initState_def selectDisabled_def toggleDisabled_def userSelect_def
  userToggle_def

lemma loaded_eq:
  "loaded =
     \<lparr> videoRef = True, scannerServiceRef = None, hasAutoStartedRef = False,
       devices = [cam1, cam2], selectedDeviceId = ''cam1'', isScanning = False,
       isLoadingCameras = False, scanResult = None, error = None,
       cancelled = False, created = 0,
       trace = [Log INFO ''Priming camera permission via getUserMedia...'' None,
                GetUserMedia, TmpTracksStopped,
                Log INFO ''Fetching camera devices...'' None, ListDevices,
                Log INFO ''Devices found: 2'' None,
                Log INFO (''Selecting first deviceId: '' @ quoted ''cam1'') None,
                Log INFO ''Finished loading cameras.'' None] \<rparr>"
  by (simp add: loaded_def handler_defs cam1_def Let_def)

lemma autoStarted_eq:
  "autoStarted =
     loaded\<lparr> scannerServiceRef := Some 0, hasAutoStartedRef := True, isScanning := True,
             created := 1,
             trace := trace loaded @
               [Log INFO (''Starting scan with deviceId: '' @ quoted ''cam1'') None,
                Log INFO ''Initializing ScannerService...'' None,
                SvcNew 0 ''cam1'',
                Log INFO ''ScannerService initialized. Calling start()...'' None,
                SvcStart 0] \<rparr>"
  by (simp add: autoStarted_def loaded_eq handler_defs cam1_def Let_def)

lemma scanning_eq:
  "scanning =
     loaded\<lparr> scannerServiceRef := Some 0, hasAutoStartedRef := True, isScanning := True,
             created := 1,
             trace := trace loaded @
               [Log INFO (''Starting scan with deviceId: '' @ quoted ''cam1'') None,
                Log INFO ''Initializing ScannerService...'' None,
                SvcNew 0 ''cam1'',
                Log INFO ''ScannerService initialized. Calling start()...'' None,
                SvcStart 0,
                StreamAcquired 0,
                Log INFO ''Scanner started successfully via start().'' None,
                ListDevices] \<rparr>"
  by (simp add: scanning_def loaded_eq handler_defs cam1_def Let_def)

lemma emptyCatalog_eq:
  "emptyCatalog =
     \<lparr> videoRef = True, scannerServiceRef = None, hasAutoStartedRef = False,
       devices = [], selectedDeviceId = [], isScanning = False,
       isLoadingCameras = False, scanResult = None, error = None,
       cancelled = False, created = 0,
       trace = [Log INFO ''Priming camera permission via getUserMedia...'' None,
                GetUserMedia,
                Log WARN ''Camera permission not granted or unavailable'' (Some ''denied''),
                Log INFO ''Fetching camera devices...'' None, ListDevices,
                Log INFO ''Devices found: 0'' None,
                Log INFO ''No video devices found.'' None,
                Log INFO ''Finished loading cameras.'' None] \<rparr>"
  by (simp add: emptyCatalog_def handler_defs Let_def)

lemma stoppedEarly_eq:
  "stoppedEarly =
     autoStarted\<lparr> scannerServiceRef := None, isScanning := False,
                  trace := trace autoStarted @
                    [Log INFO ''Stop scan button clicked.'' None, SvcStop 0] \<rparr>"
  by (simp add: stoppedEarly_def autoStarted_eq loaded_eq userToggle_def toggleDisabled_def
        view_of_def handleToggleScan_def handleStopScan_def stopService_def log_def emit_def)

lemma startedAgain_eq:
  "startedAgain =
     stoppedEarly\<lparr> scannerServiceRef := Some 1, isScanning := True, created := 2,
                   trace := trace stoppedEarly @
                     [Log INFO (''Starting scan with deviceId: '' @ quoted ''cam1'') None,
                      Log INFO ''Initializing ScannerService...'' None,
                      SvcNew 1 ''cam1'',
                      Log INFO ''ScannerService initialized. Calling start()...'' None,
                      SvcStart 1] \<rparr>"
  by (simp add: startedAgain_def stoppedEarly_eq autoStarted_eq loaded_eq handler_defs cam1_def Let_def)


subsection \<open>Facts about \<open>handleStartScan\<close>\<close>

lemma resolveDeviceId_Some: "\<exists>d. fst (resolveDeviceId v ov) = Some d"
  by (simp add: resolveDeviceId_def Let_def falsy_def split: option.splits list.splits)

lemma resolveDeviceId_cases:
  obtains d first where "resolveDeviceId v ov = (Some d, first)"
  using resolveDeviceId_Some [of v ov] by (cases "resolveDeviceId v ov") auto

lemma handleStartScan_resolved:
  assumes "resolveDeviceId v ov = (Some d, first)" and "videoRef s"
  shows "handleStartScan v ov c s =
     (let s1 = (if first
                then log INFO (''No specific device selected, using first available deviceId: ''
                               @ quoted d) None s
                else s)
      in if v_isScanning v
         then log WARN ''Start scan called while already scanning.'' None s1
         else beginScan d c s1)"
  using assms by (simp add: handleStartScan_def Let_def)

lemma beginScan_trace:
  "trace (beginScan d c s) =
     trace s @ [Log INFO (''Starting scan with deviceId: '' @ quoted d) None]
       @ (case scannerServiceRef s of None \<Rightarrow> [] | Some j \<Rightarrow> [SvcStop j])
       @ [Log INFO ''Initializing ScannerService...'' None]
       @ (case c of
            None \<Rightarrow> [SvcNew (created s) d,
                     Log INFO ''ScannerService initialized. Calling start()...'' None,
                     SvcStart (created s)]
          | Some msg \<Rightarrow> [Log ERROR ''Error initializing or starting ScannerService'' (Some msg),
                         Log ERROR ''Scanner Error'' (Some msg)])"
  by (simp add: beginScan_def catchStart_def handleError_def stopService_def log_def emit_def Let_def
        split: option.splits)

lemma beginScan_ref:
  "scannerServiceRef (beginScan d c s) = (case c of None \<Rightarrow> Some (created s) | Some msg \<Rightarrow> None)"
  by (simp add: beginScan_def catchStart_def handleError_def stopService_def log_def emit_def Let_def
        split: option.splits)



subsection \<open>Hardware streams\<close>

text \<open>
  Claim C1 says that, whatever the sequence of starts, stops and device changes, at most one
  hardware stream is open at any instant. The code does not keep this. The controls deliver
  the following run: the first render auto-starts the scan (instance 0); the user stops it
  with the button while the acquisition is under way, so \<open>stop()\<close> finds no stream, and
  starts again with the button (instance 1); then both acquisitions resolve. Nothing in
  \<open>handleStartScan\<close> looks, after \<open>await start()\<close>, whether the scan was stopped, and the
  ref to instance 0 is gone. At the end the streams of instances 0 and 1 are both open.
\<close>

theorem two_streams_open:
  "\<not> toggleDisabled (view_of autoStarted)
   \<and> \<not> toggleDisabled (view_of stoppedEarly)
   \<and> drop (length (trace loaded)) (trace bothResolved) =
       [Log INFO (''Starting scan with deviceId: '' @ quoted ''cam1'') None,
        Log INFO ''Initializing ScannerService...'' None,
        SvcNew 0 ''cam1'',
        Log INFO ''ScannerService initialized. Calling start()...'' None,
        SvcStart 0,
        Log INFO ''Stop scan button clicked.'' None,
        SvcStop 0,
        Log INFO (''Starting scan with deviceId: '' @ quoted ''cam1'') None,
        Log INFO ''Initializing ScannerService...'' None,
        SvcNew 1 ''cam1'',
        Log INFO ''ScannerService initialized. Calling start()...'' None,
        SvcStart 1,
        StreamAcquired 0,
        Log INFO ''Scanner started successfully via start().'' None,
        ListDevices,
        StreamAcquired 1,
        Log INFO ''Scanner started successfully via start().'' None,
        ListDevices]
   \<and> scannerServiceRef bothResolved = Some 1
   \<and> openStreams (trace bothResolved) = [0, 1]
   \<and> \<not> length (openStreams (trace bothResolved)) \<le> 1"
proof -
  have 1: "\<not> toggleDisabled (view_of autoStarted)" "\<not> toggleDisabled (view_of stoppedEarly)"
    by (simp_all add: stoppedEarly_eq autoStarted_eq loaded_eq toggleDisabled_def view_of_def)
  have 2: "bothResolved =
     startedAgain\<lparr>trace := trace startedAgain @
        [StreamAcquired 0,
         Log INFO ''Scanner started successfully via start().'' None,
         ListDevices,
         StreamAcquired 1,
         Log INFO ''Scanner started successfully via start().'' None,
         ListDevices]\<rparr>"
    by (simp add: bothResolved_def startResolved_def log_def emit_def)
  have 3: "drop (length (trace loaded)) (trace bothResolved) =
       [Log INFO (''Starting scan with deviceId: '' @ quoted ''cam1'') None,
        Log INFO ''Initializing ScannerService...'' None,
        SvcNew 0 ''cam1'',
        Log INFO ''ScannerService initialized. Calling start()...'' None,
        SvcStart 0,
        Log INFO ''Stop scan button clicked.'' None,
        SvcStop 0,
        Log INFO (''Starting scan with deviceId: '' @ quoted ''cam1'') None,
        Log INFO ''Initializing ScannerService...'' None,
        SvcNew 1 ''cam1'',
        Log INFO ''ScannerService initialized. Calling start()...'' None,
        SvcStart 1,
        StreamAcquired 0,
        Log INFO ''Scanner started successfully via start().'' None,
        ListDevices,
        StreamAcquired 1,
        Log INFO ''Scanner started successfully via start().'' None,
        ListDevices]"
    by (simp add: 2 startedAgain_eq stoppedEarly_eq autoStarted_eq)
  have 4: "scannerServiceRef bothResolved = Some 1"
    by (simp add: 2 startedAgain_eq)
  have 5: "openStreams (trace bothResolved) = [0, 1]"
    by (simp add: 2 startedAgain_eq stoppedEarly_eq autoStarted_eq loaded_eq openStreams_def)
  from 1 3 4 5 show ?thesis by simp
qed

subsection \<open>Stopping\<close>

text \<open>
  Claim C5. \<open>handleStopScan\<close> has no precondition. When no scanner service is held and no
  scan is running it calls nothing and changes nothing; its only trace is the log line.
  Stopping twice is stopping once, up to the second log line, and after a stop no service
  is held and no scan is running.
\<close>

theorem stop_idempotent:
  "(scannerServiceRef s = None \<and> \<not> isScanning s \<longrightarrow>
      handleStopScan s = s\<lparr>trace := trace s @ [Log INFO ''Stop scan button clicked.'' None]\<rparr>)
   \<and> handleStopScan (handleStopScan s) =
       (handleStopScan s)\<lparr>trace := trace (handleStopScan s)
                                 @ [Log INFO ''Stop scan button clicked.'' None]\<rparr>
   \<and> scannerServiceRef (handleStopScan s) = None
   \<and> isScanning (handleStopScan s) = False"
  by (cases s) (simp add: handleStopScan_def stopService_def log_def emit_def split: option.splits)

theorem stop_idempotent_witness:
  "scannerServiceRef loaded = None \<and> \<not> isScanning loaded
   \<and> handleStopScan loaded =
       loaded\<lparr>trace := trace loaded @ [Log INFO ''Stop scan button clicked.'' None]\<rparr>
   \<and> handleStopScan (handleStopScan scanning) =
       scanning\<lparr>scannerServiceRef := None, isScanning := False,
                 trace := trace scanning
                   @ [Log INFO ''Stop scan button clicked.'' None, SvcStop 0,
                      Log INFO ''Stop scan button clicked.'' None]\<rparr>"
  using stop_idempotent [of loaded] stop_idempotent [of scanning]
  by (simp add: loaded_eq scanning_eq handleStopScan_def stopService_def log_def emit_def)

subsection \<open>The auto-start\<close>

lemma flag_step: "hasAutoStartedRef s \<Longrightarrow> hasAutoStartedRef (step e s)"
  by (cases e) (simp_all add: handler_defs Let_def split: option.splits list.splits prod.splits)

lemma flag_run: "hasAutoStartedRef s \<Longrightarrow> hasAutoStartedRef (run es s)"
  by (induction es arbitrary: s) (simp_all add: flag_step)

lemma flag_handleStartScan:
  "hasAutoStartedRef (handleStartScan v d c s) = hasAutoStartedRef s"
  by (simp add: handler_defs Let_def split: option.splits list.splits prod.splits)

lemma flag_fired: "autoStartFires (view_of s) s \<Longrightarrow> hasAutoStartedRef (step (Render c) s)"
  by (simp add: autoStartEffect_def flag_handleStartScan Let_def)

lemma autoStarts_flag: "hasAutoStartedRef s \<Longrightarrow> autoStarts es s = 0"
proof (induction es arbitrary: s)
  case Nil
  then show ?case by simp
next
  case (Cons e es)
  then have "autoStarts es (step e s) = 0" by (simp add: flag_step)
  with Cons.prems show ?case
    by (cases e) (simp_all add: autoStartFires_def)
qed

lemma autoStarts_le: "autoStarts es s \<le> 1"
proof (induction es arbitrary: s)
  case Nil
  then show ?case by simp
next
  case (Cons e es)
  show ?case
  proof (cases "\<exists>c. e = Render c \<and> autoStartFires (view_of s) s")
    case True
    then obtain c where e: "e = Render c" and f: "autoStartFires (view_of s) s" by blast
    from f have "autoStarts es (step (Render c) s) = 0"
      by (intro autoStarts_flag flag_fired)
    with e f show ?thesis by simp
  next
    case False
    then have "autoStarts (e # es) s = autoStarts es (step e s)"
      by (cases e) auto
    with Cons.IH show ?thesis by simp
  qed
qed

text \<open>
  Claim C4. In every run, from every state, the auto-start effect issues its start at most
  once. Once \<open>hasAutoStartedRef\<close> is set, no event resets it, the effect does nothing, and
  no later render (after a device-list refresh, a change of the selection or any other
  change of state) issues an automatic start.
\<close>

theorem auto_start_once:
  "autoStarts es s \<le> 1
   \<and> (hasAutoStartedRef s \<longrightarrow>
        autoStarts es s = 0 \<and> hasAutoStartedRef (run es s) \<and> autoStartEffect v c s = s)"
  using autoStarts_le [of es s]
  by (simp add: autoStarts_flag flag_run autoStartEffect_def autoStartFires_def)

theorem auto_start_once_witness:
  "autoStarts (Render None # refreshes) loaded = 1
   \<and> hasAutoStartedRef scanning
   \<and> autoStarts refreshes scanning = 0
   \<and> hasAutoStartedRef (run refreshes scanning)"
proof -
  have fires: "autoStartFires (view_of loaded) loaded"
    by (simp add: autoStartFires_def view_of_def loaded_eq)
  have flag: "hasAutoStartedRef scanning"
    by (simp add: scanning_eq)
  from fires flag
    auto_start_once [of "Render None # refreshes" loaded "view_of loaded" None]
    auto_start_once [of refreshes scanning "view_of scanning" None]
  show ?thesis by simp
qed

subsection \<open>The refresh of the device list after a start\<close>

lemma hasBetterLabels_iff: "hasBetterLabels vs = (\<exists>d\<in>set vs. label d \<noteq> [])"
  by (simp add: hasBetterLabels_def list_ex_iff)

lemma selected_handleStartScan:
  "selectedDeviceId (handleStartScan v d c s) = selectedDeviceId s"
  by (simp add: handler_defs Let_def split: option.splits list.splits prod.splits)

text \<open>
  Claim C9. The resumption after the refresh of the device list replaces \<open>devices\<close> exactly
  when the refreshed list has a device with a non-empty label, and changes no other part of
  the state; \<open>selectedDeviceId\<close> in particular stays, also through the render that follows.
  While a scan is running or the auto-start has been used that render changes nothing
  either. A failed refresh only logs a warning.
\<close>

theorem refresh_frame:
  "refreshResolved vs s =
     s\<lparr>devices := (if \<exists>d\<in>set vs. label d \<noteq> [] then vs else devices s)\<rparr>
   \<and> selectedDeviceId (refreshResolved vs s) = selectedDeviceId s
   \<and> selectedDeviceId (step (Render c) (refreshResolved vs s)) = selectedDeviceId s
   \<and> (isScanning s \<or> hasAutoStartedRef s \<longrightarrow>
        step (Render c) (refreshResolved vs s) = refreshResolved vs s)
   \<and> refreshRejected m s =
       s\<lparr>trace := trace s @ [Log WARN ''Failed to re-fetch devices after start'' (Some m)]\<rparr>"
proof (intro conjI impI)
  show "refreshResolved vs s =
     s\<lparr>devices := (if \<exists>d\<in>set vs. label d \<noteq> [] then vs else devices s)\<rparr>"
    by (simp add: refreshResolved_def hasBetterLabels_iff)
  show "selectedDeviceId (refreshResolved vs s) = selectedDeviceId s"
    by (simp add: refreshResolved_def)
  show "selectedDeviceId (step (Render c) (refreshResolved vs s)) = selectedDeviceId s"
    by (simp add: autoStartEffect_def selected_handleStartScan refreshResolved_def Let_def)
  show "step (Render c) (refreshResolved vs s) = refreshResolved vs s"
    if "isScanning s \<or> hasAutoStartedRef s"
    using that by (auto simp: autoStartEffect_def autoStartFires_def view_of_def refreshResolved_def)
  show "refreshRejected m s =
       s\<lparr>trace := trace s @ [Log WARN ''Failed to re-fetch devices after start'' (Some m)]\<rparr>"
    by (simp add: refreshRejected_def log_def emit_def)
qed

theorem refresh_frame_witness:
  "isScanning scanning
   \<and> refreshResolved [cam1, cam2, cam3] scanning = scanning\<lparr>devices := [cam1, cam2, cam3]\<rparr>
   \<and> refreshResolved [cam2, cam1] scanning = scanning
   \<and> selectedDeviceId (refreshResolved [cam3] scanning) = ''cam1''
   \<and> step (Render None) (refreshResolved [cam3] scanning) = refreshResolved [cam3] scanning"
proof -
  have a: "isScanning scanning" and b: "selectedDeviceId scanning = ''cam1''"
    by (simp_all add: scanning_eq loaded_eq)
  have c: "label cam1 = []" "label cam2 = []" "label cam3 \<noteq> []"
    by (simp_all add: cam1_def cam2_def cam3_def)
  have 1: "refreshResolved [cam1, cam2, cam3] scanning = scanning\<lparr>devices := [cam1, cam2, cam3]\<rparr>"
    using c refresh_frame [of "[cam1, cam2, cam3]" scanning None undefined] by simp
  have 2: "refreshResolved [cam2, cam1] scanning = scanning"
    using c refresh_frame [of "[cam2, cam1]" scanning None undefined] by simp
  have 3: "selectedDeviceId (refreshResolved [cam3] scanning) = ''cam1''"
    using b refresh_frame [of "[cam3]" scanning None undefined] by simp
  have 4: "step (Render None) (refreshResolved [cam3] scanning) = refreshResolved [cam3] scanning"
    using a refresh_frame [of "[cam3]" scanning None undefined] by blast
  from a 1 2 3 4 show ?thesis by (intro conjI)
qed

subsection \<open>Starting without a device\<close>

text \<open>
  Claim C10. The device id resolved by \<open>handleStartScan\<close> is never \<open>undefined\<close> or
  \<open>null\<close>, so the function equals the one without the branch that reports "No camera
  device available or selected.", and its warning is never logged. With an empty catalog
  and no selection the resolved id is the empty string, and the start goes on to construct
  and start a scanner service for it.
\<close>

theorem no_device_branch_unreachable:
  "fst (resolveDeviceId v ov) \<noteq> None
   \<and> handleStartScan v ov c s =
       (if \<not> videoRef s
        then s\<lparr>error := Some ''Video element reference is not available.''\<rparr>
        else (let d = the (fst (resolveDeviceId v ov));
                  s1 = (if snd (resolveDeviceId v ov)
                        then log INFO
                               (''No specific device selected, using first available deviceId: ''
                                @ quoted d) None s
                        else s)
              in if v_isScanning v
                 then log WARN ''Start scan called while already scanning.'' None s1
                 else beginScan d c s1))
   \<and> Log WARN ''Start scan aborted: No usable device ID found.'' None
        \<notin> set (drop (length (trace s)) (trace (handleStartScan v ov c s)))
   \<and> (v_devices v = [] \<and> v_selectedDeviceId v = [] \<longrightarrow>
        resolveDeviceId v None = (Some [], False))
   \<and> (videoRef s \<and> \<not> v_isScanning v \<and> v_devices v = [] \<and> v_selectedDeviceId v = [] \<longrightarrow>
        isScanning (handleStartScan v None None s)
        \<and> scannerServiceRef (handleStartScan v None None s) = Some (created s)
        \<and> trace (handleStartScan v None None s) =
            trace s @ [Log INFO (''Starting scan with deviceId: '' @ quoted []) None]
            @ (case scannerServiceRef s of None \<Rightarrow> [] | Some j \<Rightarrow> [SvcStop j])
            @ [Log INFO ''Initializing ScannerService...'' None,
               SvcNew (created s) [],
               Log INFO ''ScannerService initialized. Calling start()...'' None,
               SvcStart (created s)])"
proof -
  obtain d first where r: "resolveDeviceId v ov = (Some d, first)"
    by (rule resolveDeviceId_cases)
  have unfolded: "handleStartScan v ov c s =
       (if \<not> videoRef s
        then s\<lparr>error := Some ''Video element reference is not available.''\<rparr>
        else (let d = the (fst (resolveDeviceId v ov));
                  s1 = (if snd (resolveDeviceId v ov)
                        then log INFO
                               (''No specific device selected, using first available deviceId: ''
                                @ quoted d) None s
                        else s)
              in if v_isScanning v
                 then log WARN ''Start scan called while already scanning.'' None s1
                 else beginScan d c s1))"
    by (simp add: handleStartScan_def r Let_def)
  have notlogged: "Log WARN ''Start scan aborted: No usable device ID found.'' None
        \<notin> set (drop (length (trace s)) (trace (handleStartScan v ov c s)))"
    by (simp add: unfolded r Let_def beginScan_trace log_def emit_def split: option.splits)
  have empty: "resolveDeviceId v None = (Some [], False)"
    if "v_devices v = [] \<and> v_selectedDeviceId v = []"
    using that by (simp add: resolveDeviceId_def)
  have proceeds: "isScanning (handleStartScan v None None s)
        \<and> scannerServiceRef (handleStartScan v None None s) = Some (created s)
        \<and> trace (handleStartScan v None None s) =
            trace s @ [Log INFO (''Starting scan with deviceId: '' @ quoted []) None]
            @ (case scannerServiceRef s of None \<Rightarrow> [] | Some j \<Rightarrow> [SvcStop j])
            @ [Log INFO ''Initializing ScannerService...'' None,
               SvcNew (created s) [],
               Log INFO ''ScannerService initialized. Calling start()...'' None,
               SvcStart (created s)]"
    if h: "videoRef s \<and> \<not> v_isScanning v \<and> v_devices v = [] \<and> v_selectedDeviceId v = []"
  proof -
    from h have e: "resolveDeviceId v None = (Some [], False)" by (simp add: empty)
    from h have "handleStartScan v None None s = beginScan [] None s"
      by (simp add: handleStartScan_resolved [OF e])
    then show ?thesis
      by (simp add: beginScan_trace beginScan_ref)
         (simp add: beginScan_def stopService_def log_def emit_def Let_def split: option.splits)
  qed
  from r unfolded notlogged empty proceeds show ?thesis
    by (intro conjI impI) simp_all
qed

theorem no_device_branch_unreachable_witness:
  "v_devices (view_of emptyCatalog) = [] \<and> v_selectedDeviceId (view_of emptyCatalog) = []
   \<and> videoRef emptyCatalog \<and> \<not> v_isScanning (view_of emptyCatalog)
   \<and> resolveDeviceId (view_of emptyCatalog) None = (Some [], False)
   \<and> isScanning (handleStartScan (view_of emptyCatalog) None None emptyCatalog)
   \<and> scannerServiceRef (handleStartScan (view_of emptyCatalog) None None emptyCatalog) = Some 0"
proof -
  have h: "videoRef emptyCatalog \<and> \<not> v_isScanning (view_of emptyCatalog)
           \<and> v_devices (view_of emptyCatalog) = [] \<and> v_selectedDeviceId (view_of emptyCatalog) = []"
    and c: "created emptyCatalog = 0"
    by (simp_all add: emptyCatalog_eq view_of_def)
  note t = no_device_branch_unreachable [of "view_of emptyCatalog" None None emptyCatalog]
  from t h have 1: "resolveDeviceId (view_of emptyCatalog) None = (Some [], False)"
    by blast
  from t h have 2: "isScanning (handleStartScan (view_of emptyCatalog) None None emptyCatalog)"
    by blast
  from t h have 3: "scannerServiceRef (handleStartScan (view_of emptyCatalog) None None emptyCatalog)
                    = Some (created emptyCatalog)"
    by blast
  from h c 1 2 3 show ?thesis by simp
qed


subsection \<open>Changing the camera\<close>




subsection \<open>A start that resolves after a stop\<close>

text \<open>
  Claim C6 says that when the acquisition of a start resolves only after a \<open>stop()\<close>, the
  resumption leaves the controller inactive, releases the resolved stream at once and
  discards the stale result. The code leaves the controller inactive, and that is all.
  Evaluated on the run in which the user stops the auto-started scan while its acquisition
  is under way: the resumption logs the success, asks for the device list again and replaces
  the stored list by the refreshed one; it calls nothing on the scanner service, and no ref
  to instance 0 is left, so the stream of instance 0 stays open. The mount effect checks
  \<open>cancelled\<close> after its \<open>await\<close>; \<open>handleStartScan\<close> has no such check.
\<close>

theorem stale_stream_retained:
  "\<not> toggleDisabled (view_of autoStarted)
   \<and> isScanning stoppedEarly = False
   \<and> scannerServiceRef stoppedEarly = None
   \<and> openStreams (trace stoppedEarly) = []
   \<and> devices stoppedEarly = [cam1, cam2]
   \<and> resumedLate =
       stoppedEarly\<lparr>devices := labelled,
                     trace := trace stoppedEarly
                       @ [StreamAcquired 0,
                          Log INFO ''Scanner started successfully via start().'' None,
                          ListDevices]\<rparr>
   \<and> devices resumedLate \<noteq> devices stoppedEarly
   \<and> scannerServiceRef resumedLate = None
   \<and> openStreams (trace resumedLate) = [0]"
proof -
  have 0: "\<not> toggleDisabled (view_of autoStarted)"
    by (simp add: autoStarted_eq loaded_eq toggleDisabled_def view_of_def)
  have 1: "resumedLate =
       stoppedEarly\<lparr>devices := labelled,
                     trace := trace stoppedEarly
                       @ [StreamAcquired 0,
                          Log INFO ''Scanner started successfully via start().'' None,
                          ListDevices]\<rparr>"
    by (simp add: resumedLate_def startResolved_def refreshResolved_def hasBetterLabels_def
          log_def emit_def labelled_def)
  have 2: "devices stoppedEarly = [cam1, cam2]" "isScanning stoppedEarly = False"
    "scannerServiceRef stoppedEarly = None"
    by (simp_all add: stoppedEarly_eq autoStarted_eq loaded_eq)
  have 3: "devices resumedLate \<noteq> devices stoppedEarly"
    by (simp add: 1 2) (simp add: labelled_def cam1_def)
  have 4: "openStreams (trace stoppedEarly) = []"
    by (simp add: stoppedEarly_eq autoStarted_eq loaded_eq openStreams_def)
  have 5: "openStreams (trace resumedLate) = [0]"
    by (simp add: 1 stoppedEarly_eq autoStarted_eq loaded_eq openStreams_def)
  have 6: "scannerServiceRef resumedLate = None"
    by (simp add: 1 2)
  from 0 1 2 3 4 5 6 show ?thesis by simp
qed

section \<open>Properties of the transport\<close>

lemma sendWithFetch_beacon: "filter isBeacon (fst (sendWithFetch net p)) = []"
  by (simp add: sendWithFetch_def split: fetch_outcome.splits)

lemma sendWithFetch_fetch:
  "filter isFetch (fst (sendWithFetch net p)) = [Fetch ''/log'' ''POST'' p True]"
  by (simp add: sendWithFetch_def split: fetch_outcome.splits)

lemma deliver_beacon:
  "filter isBeacon (fst (deliver net p)) =
     (if hasSendBeacon net then [SendBeacon ''/log'' p] else [])"
proof -
  obtain outs exn where f: "sendWithFetch net p = (outs, exn)"
    by (cases "sendWithFetch net p")
  with sendWithFetch_beacon [of net p] have "filter isBeacon outs = []" by simp
  with f show ?thesis
    by (simp add: deliver_def split: beacon_outcome.splits)
qed

lemma deliver_fetch:
  "filter isFetch (fst (deliver net p)) =
     (if hasSendBeacon net \<and> sendBeaconResult net \<noteq> BeaconRefused then []
      else [Fetch ''/log'' ''POST'' p True])"
proof -
  obtain outs exn where f: "sendWithFetch net p = (outs, exn)"
    by (cases "sendWithFetch net p")
  with sendWithFetch_fetch [of net p] have "filter isFetch outs = [Fetch ''/log'' ''POST'' p True]"
    by simp
  with f show ?thesis
    by (simp add: deliver_def split: beacon_outcome.splits)
qed

lemma stringifyData_console:
  "filter isBeacon (snd (stringifyData data)) = []"
  "filter isFetch (snd (stringifyData data)) = []"
  "\<not> list_ex isNetwork (snd (stringifyData data))"
  by (simp_all add: stringifyData_def split: option.splits js_data.splits)

lemma consoleWrite_console:
  "\<not> isBeacon (consoleWrite lvl m)" "\<not> isFetch (consoleWrite lvl m)"
  by (cases lvl; simp)+

lemma remoteLog_eq:
  "remoteLog net ts cid src lvl cpt msg data =
     (let dataString = fst (stringifyData data);
          d = deliver net \<lparr> p_clientId = cid, p_source = src, p_level = levelString lvl,
                 p_component = cpt, p_message = msg, p_dataString = dataString \<rparr>
      in (snd (stringifyData data)
            @ [consoleWrite lvl (formatMessage ts cid lvl src cpt msg dataString)]
            @ fst d
            @ (case snd d of None \<Rightarrow> []
               | Some e \<Rightarrow> [ConsoleError ''[Remote Log] Error preparing or sending log:''
                               (Some e)]),
          None))"
  by (simp add: remoteLog_def Let_def split: prod.splits option.splits)

lemma levelString_cases:
  "levelString lvl = (case lvl of INFO \<Rightarrow> ''INFO'' | WARN \<Rightarrow> ''WARN''
                      | ERROR \<Rightarrow> ''ERROR'' | DEBUG \<Rightarrow> ''DEBUG'')"
  by (cases lvl) simp_all

lemma consoleWrite_cases:
  "consoleWrite lvl m = (case lvl of ERROR \<Rightarrow> ConsoleError m None | WARN \<Rightarrow> ConsoleWarn m
                         | DEBUG \<Rightarrow> ConsoleDebug m | INFO \<Rightarrow> ConsoleLog m)"
  by (cases lvl) simp_all

lemma stringifyData_cases:
  "stringifyData data =
     ((case data of None \<Rightarrow> [] | Some (Stringifies t) \<Rightarrow> '' '' @ t
       | Some (StringifyThrows x) \<Rightarrow> '' [Unserializable data]''),
      (case data of
         Some (StringifyThrows x) \<Rightarrow>
           [ConsoleError ''[Remote Log] Error stringifying log data:'' (Some x)]
       | _ \<Rightarrow> []))"
  by (simp add: stringifyData_def split: option.splits js_data.splits)

lemma deliver_cases:
  "deliver net p =
     (let fetchPart =
            Fetch ''/log'' ''POST'' p True
              # (case fetchResult net of
                   FetchRejected x \<Rightarrow>
                     [ConsoleError ''[Remote Log] Fetch fallback failed:'' (Some x)]
                 | _ \<Rightarrow> []);
          fetchExn = (case fetchResult net of FetchThrows x \<Rightarrow> Some x | _ \<Rightarrow> None)
      in if hasSendBeacon net
         then (case sendBeaconResult net of
                 BeaconQueued \<Rightarrow> ([SendBeacon ''/log'' p], None)
               | BeaconRefused \<Rightarrow>
                   (SendBeacon ''/log'' p
                      # ConsoleWarn
                          ''[Remote Log] sendBeacon returned false, attempting fetch fallback.''
                      # fetchPart, fetchExn)
               | BeaconThrows x \<Rightarrow> ([SendBeacon ''/log'' p], Some x))
         else (fetchPart, fetchExn))"
  by (simp add: deliver_def sendWithFetch_def Let_def
        split: beacon_outcome.splits fetch_outcome.splits)

text \<open>
  Claim C7. \<open>remoteLog\<close> never throws, and what it writes is the following, in this
  order. First the formatted record, one string
  \<open>[timestamp - client - LEVEL]: [source - component] message data\<close> that has a line
  break only where an argument has one, on the console method of its level; only a failed
  serialisation of the data is reported before it. Then one call of \<open>sendBeacon\<close> when
  the platform has it. Then, exactly when the beacon is missing or returned \<open>false\<close>, one
  call of \<open>fetch\<close> with \<open>keepalive\<close>. A refused beacon, a rejected fetch and an
  exception of either call each end in one line on the console; nothing is sent again.
\<close>

theorem remoteLog_never_throws:
  fixes net ts cid src lvl cpt msg data
  defines "levelName \<equiv> (case lvl of INFO \<Rightarrow> ''INFO'' | WARN \<Rightarrow> ''WARN''
                          | ERROR \<Rightarrow> ''ERROR'' | DEBUG \<Rightarrow> ''DEBUG'')"
    and "dataString \<equiv> (case data of None \<Rightarrow> [] | Some (Stringifies t) \<Rightarrow> '' '' @ t
                          | Some (StringifyThrows x) \<Rightarrow> '' [Unserializable data]'')"
  defines "formatted \<equiv> ''['' @ ts @ '' - '' @ cid @ '' - '' @ levelName @ '']: [''
                          @ src @ '' - '' @ cpt @ ''] '' @ msg @ dataString"
    and "payload \<equiv> \<lparr> p_clientId = cid, p_source = src, p_level = levelName,
                       p_component = cpt, p_message = msg, p_dataString = dataString \<rparr>"
  defines "entry \<equiv> (case lvl of ERROR \<Rightarrow> ConsoleError formatted None
                      | WARN \<Rightarrow> ConsoleWarn formatted
                      | DEBUG \<Rightarrow> ConsoleDebug formatted
                      | INFO \<Rightarrow> ConsoleLog formatted)"
    and "fetchPart \<equiv>
           Fetch ''/log'' ''POST'' payload True
             # (case fetchResult net of
                  FetchFulfilled \<Rightarrow> []
                | FetchRejected x \<Rightarrow>
                    [ConsoleError ''[Remote Log] Fetch fallback failed:'' (Some x)]
                | FetchThrows x \<Rightarrow>
                    [ConsoleError ''[Remote Log] Error preparing or sending log:'' (Some x)])"
  defines "r \<equiv> remoteLog net ts cid src lvl cpt msg data"
  shows "r =
      ((case data of
          Some (StringifyThrows x) \<Rightarrow>
            [ConsoleError ''[Remote Log] Error stringifying log data:'' (Some x)]
        | _ \<Rightarrow> [])
       @ [entry]
       @ (if hasSendBeacon net
          then SendBeacon ''/log'' payload
                 # (case sendBeaconResult net of
                      BeaconQueued \<Rightarrow> []
                    | BeaconRefused \<Rightarrow>
                        ConsoleWarn
                          ''[Remote Log] sendBeacon returned false, attempting fetch fallback.''
                          # fetchPart
                    | BeaconThrows x \<Rightarrow>
                        [ConsoleError ''[Remote Log] Error preparing or sending log:''
                           (Some x)])
          else fetchPart),
       None)
    \<and> snd r = None
    \<and> (\<exists>pre post. fst r = pre @ [entry] @ post \<and> \<not> list_ex isNetwork pre)
    \<and> (CHR 0x0A \<in> set formatted \<longrightarrow>
         CHR 0x0A \<in> set ts \<union> set cid \<union> set src \<union> set cpt \<union> set msg \<union> set dataString)
    \<and> filter isBeacon (fst r) = (if hasSendBeacon net then [SendBeacon ''/log'' payload] else [])
    \<and> filter isFetch (fst r) =
         (if hasSendBeacon net \<and> sendBeaconResult net \<noteq> BeaconRefused then []
          else [Fetch ''/log'' ''POST'' payload True])
    \<and> (hasSendBeacon net \<longrightarrow>
         (\<exists>pre post. fst r = pre @ [SendBeacon ''/log'' payload] @ post \<and> \<not> list_ex isFetch pre))
    \<and> ((\<not> hasSendBeacon net \<or> sendBeaconResult net = BeaconRefused)
         \<and> fetchResult net = FetchRejected e \<longrightarrow>
         last (fst r) = ConsoleError ''[Remote Log] Fetch fallback failed:'' (Some e))
    \<and> (hasSendBeacon net \<and> sendBeaconResult net = BeaconRefused \<longrightarrow>
         ConsoleWarn ''[Remote Log] sendBeacon returned false, attempting fetch fallback.''
           \<in> set (fst r))
    \<and> ((hasSendBeacon net \<and> sendBeaconResult net = BeaconThrows e)
         \<or> ((\<not> hasSendBeacon net \<or> sendBeaconResult net = BeaconRefused)
             \<and> fetchResult net = FetchThrows e) \<longrightarrow>
         last (fst r) = ConsoleError ''[Remote Log] Error preparing or sending log:'' (Some e))"
proof -
  have ds: "fst (stringifyData data) = dataString"
    by (simp add: stringifyData_cases dataString_def)
  have fm: "formatMessage ts cid lvl src cpt msg dataString = formatted"
    by (simp add: formatMessage_def formatted_def levelName_def levelString_cases)
  have en: "consoleWrite lvl formatted = entry"
    by (simp add: consoleWrite_cases entry_def)
  have pl: "\<lparr> p_clientId = cid, p_source = src, p_level = levelString lvl,
              p_component = cpt, p_message = msg, p_dataString = dataString \<rparr> = payload"
    by (simp add: payload_def levelName_def levelString_cases)
  have full: "r =
      ((case data of
          Some (StringifyThrows x) \<Rightarrow>
            [ConsoleError ''[Remote Log] Error stringifying log data:'' (Some x)]
        | _ \<Rightarrow> [])
       @ [entry]
       @ (if hasSendBeacon net
          then SendBeacon ''/log'' payload
                 # (case sendBeaconResult net of
                      BeaconQueued \<Rightarrow> []
                    | BeaconRefused \<Rightarrow>
                        ConsoleWarn
                          ''[Remote Log] sendBeacon returned false, attempting fetch fallback.''
                          # fetchPart
                    | BeaconThrows x \<Rightarrow>
                        [ConsoleError ''[Remote Log] Error preparing or sending log:''
                           (Some x)])
          else fetchPart),
       None)"
    unfolding r_def remoteLog_eq Let_def ds fm en pl
    by (simp add: deliver_cases fetchPart_def Let_def stringifyData_cases
          split: beacon_outcome.splits fetch_outcome.splits option.splits js_data.splits)
  have noise: "\<not> list_ex isNetwork
                 (case data of
                    Some (StringifyThrows x) \<Rightarrow>
                      [ConsoleError ''[Remote Log] Error stringifying log data:'' (Some x)]
                  | _ \<Rightarrow> [])"
    by (simp split: option.splits js_data.splits)
  have nl: "CHR 0x0A \<in> set formatted \<longrightarrow>
         CHR 0x0A \<in> set ts \<union> set cid \<union> set src \<union> set cpt \<union> set msg \<union> set dataString"
    by (cases lvl) (auto simp: formatted_def levelName_def)
  have eqr: "r = remoteLog net ts cid src lvl cpt msg data" by (simp add: r_def)
  have b: "filter isBeacon (fst r) = (if hasSendBeacon net then [SendBeacon ''/log'' payload] else [])"
    unfolding r_def remoteLog_eq Let_def ds pl
    by (simp add: stringifyData_console consoleWrite_console deliver_beacon split: option.splits)
  have f: "filter isFetch (fst r) =
         (if hasSendBeacon net \<and> sendBeaconResult net \<noteq> BeaconRefused then []
          else [Fetch ''/log'' ''POST'' payload True])"
    unfolding r_def remoteLog_eq Let_def ds pl
    by (simp add: stringifyData_console consoleWrite_console deliver_fetch split: option.splits)
  have ord: "\<exists>pre post. fst r = pre @ [SendBeacon ''/log'' payload] @ post \<and> \<not> list_ex isFetch pre"
    if hb: "hasSendBeacon net"
  proof -
    have "\<not> list_ex isFetch
             ((case data of
                 Some (StringifyThrows x) \<Rightarrow>
                   [ConsoleError ''[Remote Log] Error stringifying log data:'' (Some x)]
               | _ \<Rightarrow> []) @ [entry])"
      by (cases lvl) (simp_all add: entry_def split: option.splits js_data.splits)
    moreover from hb have "fst r =
        ((case data of
            Some (StringifyThrows x) \<Rightarrow>
              [ConsoleError ''[Remote Log] Error stringifying log data:'' (Some x)]
          | _ \<Rightarrow> []) @ [entry])
        @ [SendBeacon ''/log'' payload]
        @ (case sendBeaconResult net of
             BeaconQueued \<Rightarrow> []
           | BeaconRefused \<Rightarrow>
               ConsoleWarn
                 ''[Remote Log] sendBeacon returned false, attempting fetch fallback.''
                 # fetchPart
           | BeaconThrows x \<Rightarrow>
               [ConsoleError ''[Remote Log] Error preparing or sending log:'' (Some x)])"
      by (simp add: full)
    ultimately show ?thesis by blast
  qed
  have rej: "last (fst r) = ConsoleError ''[Remote Log] Fetch fallback failed:'' (Some e)"
    if "(\<not> hasSendBeacon net \<or> sendBeaconResult net = BeaconRefused)
         \<and> fetchResult net = FetchRejected e"
    using that by (auto simp: full fetchPart_def)
  have warn: "ConsoleWarn ''[Remote Log] sendBeacon returned false, attempting fetch fallback.''
           \<in> set (fst r)"
    if "hasSendBeacon net \<and> sendBeaconResult net = BeaconRefused"
    using that by (simp add: full)
  have thr: "last (fst r) = ConsoleError ''[Remote Log] Error preparing or sending log:'' (Some e)"
    if "(hasSendBeacon net \<and> sendBeaconResult net = BeaconThrows e)
         \<or> ((\<not> hasSendBeacon net \<or> sendBeaconResult net = BeaconRefused)
             \<and> fetchResult net = FetchThrows e)"
    using that by (auto simp: full fetchPart_def)
  have pre: "\<exists>pre post. fst r = pre @ [entry] @ post \<and> \<not> list_ex isNetwork pre"
    using noise by (subst full) (simp, blast)
  have sn: "snd r = None" by (subst full) simp
  from full sn pre nl b f ord rej warn thr show ?thesis
    by (intro conjI impI) blast+
qed

theorem remoteLog_never_throws_witness:
  "hasSendBeacon flaky \<and> sendBeaconResult flaky = BeaconRefused
   \<and> fetchResult flaky = FetchRejected ''offline''
   \<and> remoteLog flaky ''T'' ''c1'' ''Client'' WARN ''QRScanner'' ''hello'' (Some (Stringifies ''42'')) =
       ([ConsoleWarn ''[T - c1 - WARN]: [Client - QRScanner] hello 42'',
         SendBeacon ''/log''
           \<lparr> p_clientId = ''c1'', p_source = ''Client'', p_level = ''WARN'',
             p_component = ''QRScanner'', p_message = ''hello'', p_dataString = '' 42'' \<rparr>,
         ConsoleWarn ''[Remote Log] sendBeacon returned false, attempting fetch fallback.'',
         Fetch ''/log'' ''POST''
           \<lparr> p_clientId = ''c1'', p_source = ''Client'', p_level = ''WARN'',
             p_component = ''QRScanner'', p_message = ''hello'', p_dataString = '' 42'' \<rparr> True,
         ConsoleError ''[Remote Log] Fetch fallback failed:'' (Some ''offline'')], None)
   \<and> last (fst (remoteLog flaky ''T'' ''c1'' ''Client'' WARN ''QRScanner'' ''hello''
                   (Some (Stringifies ''42''))))
       = ConsoleError ''[Remote Log] Fetch fallback failed:'' (Some ''offline'')
   \<and> \<not> hasSendBeacon legacy \<and> fetchResult legacy = FetchThrows ''fetch is not defined''
   \<and> remoteLog legacy ''T'' ''c1'' ''Lib'' ERROR ''ScannerService'' ''boom'' None =
       ([ConsoleError ''[T - c1 - ERROR]: [Lib - ScannerService] boom'' None,
         Fetch ''/log'' ''POST''
           \<lparr> p_clientId = ''c1'', p_source = ''Lib'', p_level = ''ERROR'',
             p_component = ''ScannerService'', p_message = ''boom'', p_dataString = [] \<rparr> True,
         ConsoleError ''[Remote Log] Error preparing or sending log:''
           (Some ''fetch is not defined'')], None)
   \<and> last (fst (remoteLog legacy ''T'' ''c1'' ''Lib'' ERROR ''ScannerService'' ''boom'' None))
       = ConsoleError ''[Remote Log] Error preparing or sending log:''
           (Some ''fetch is not defined'')"
proof -
  have f: "hasSendBeacon flaky \<and> sendBeaconResult flaky = BeaconRefused
           \<and> fetchResult flaky = FetchRejected ''offline''"
    by (simp add: flaky_def)
  have l: "\<not> hasSendBeacon legacy \<and> fetchResult legacy = FetchThrows ''fetch is not defined''"
    by (simp add: legacy_def)
  note a = remoteLog_never_throws
             [of flaky "''T''" "''c1''" "''Client''" WARN "''QRScanner''" "''hello''"
                 "Some (Stringifies ''42'')" "''offline''"]
  note b = remoteLog_never_throws
             [of legacy "''T''" "''c1''" "''Lib''" ERROR "''ScannerService''" "''boom''" None
                 "''fetch is not defined''"]
  from a [THEN conjunct1] f
  have 1: "remoteLog flaky ''T'' ''c1'' ''Client'' WARN ''QRScanner'' ''hello'' (Some (Stringifies ''42'')) =
       ([ConsoleWarn ''[T - c1 - WARN]: [Client - QRScanner] hello 42'',
         SendBeacon ''/log''
           \<lparr> p_clientId = ''c1'', p_source = ''Client'', p_level = ''WARN'',
             p_component = ''QRScanner'', p_message = ''hello'', p_dataString = '' 42'' \<rparr>,
         ConsoleWarn ''[Remote Log] sendBeacon returned false, attempting fetch fallback.'',
         Fetch ''/log'' ''POST''
           \<lparr> p_clientId = ''c1'', p_source = ''Client'', p_level = ''WARN'',
             p_component = ''QRScanner'', p_message = ''hello'', p_dataString = '' 42'' \<rparr> True,
         ConsoleError ''[Remote Log] Fetch fallback failed:'' (Some ''offline'')], None)"
    by simp
  from a f
  have 2: "last (fst (remoteLog flaky ''T'' ''c1'' ''Client'' WARN ''QRScanner'' ''hello''
                   (Some (Stringifies ''42''))))
       = ConsoleError ''[Remote Log] Fetch fallback failed:'' (Some ''offline'')"
    by blast
  from b [THEN conjunct1] l
  have 3: "remoteLog legacy ''T'' ''c1'' ''Lib'' ERROR ''ScannerService'' ''boom'' None =
       ([ConsoleError ''[T - c1 - ERROR]: [Lib - ScannerService] boom'' None,
         Fetch ''/log'' ''POST''
           \<lparr> p_clientId = ''c1'', p_source = ''Lib'', p_level = ''ERROR'',
             p_component = ''ScannerService'', p_message = ''boom'', p_dataString = [] \<rparr> True,
         ConsoleError ''[Remote Log] Error preparing or sending log:''
           (Some ''fetch is not defined'')], None)"
    by simp
  from b l
  have 4: "last (fst (remoteLog legacy ''T'' ''c1'' ''Lib'' ERROR ''ScannerService'' ''boom'' None))
       = ConsoleError ''[Remote Log] Error preparing or sending log:''
           (Some ''fetch is not defined'')"
    by blast
  from f l 1 2 3 4 show ?thesis by (intro conjI) simp_all
qed

text \<open>
  Claim C8. When \<open>JSON.stringify\<close> throws on the data, \<open>remoteLog\<close> reports that on the
  console, writes the formatted record with the text \<open>[Unserializable data]\<close> in place of
  the data, goes on to the network with the same placeholder in the payload (the beacon if
  the platform has it, else \<open>fetch\<close>), and returns normally.
\<close>

theorem remoteLog_unserializable:
  "\<exists>more. remoteLog net ts cid src lvl cpt msg (Some (StringifyThrows e)) =
     ([ConsoleError ''[Remote Log] Error stringifying log data:'' (Some e),
       consoleWrite lvl (formatMessage ts cid lvl src cpt msg '' [Unserializable data]''),
       (if hasSendBeacon net
        then SendBeacon ''/log''
               \<lparr> p_clientId = cid, p_source = src, p_level = levelString lvl,
                 p_component = cpt, p_message = msg,
                 p_dataString = '' [Unserializable data]'' \<rparr>
        else Fetch ''/log'' ''POST''
               \<lparr> p_clientId = cid, p_source = src, p_level = levelString lvl,
                 p_component = cpt, p_message = msg,
                 p_dataString = '' [Unserializable data]'' \<rparr> True)]
      @ more, None)"
proof -
  let ?p = "\<lparr> p_clientId = cid, p_source = src, p_level = levelString lvl,
                 p_component = cpt, p_message = msg,
                 p_dataString = '' [Unserializable data]'' \<rparr>"
  have "\<exists>rest. fst (deliver net ?p) =
          (if hasSendBeacon net then SendBeacon ''/log'' ?p else Fetch ''/log'' ''POST'' ?p True)
          # rest"
    by (simp add: deliver_def sendWithFetch_def split: beacon_outcome.splits fetch_outcome.splits)
  then obtain rest where d: "fst (deliver net ?p) =
          (if hasSendBeacon net then SendBeacon ''/log'' ?p else Fetch ''/log'' ''POST'' ?p True)
          # rest"
    by blast
  have s: "stringifyData (Some (StringifyThrows e)) =
             ('' [Unserializable data]'',
              [ConsoleError ''[Remote Log] Error stringifying log data:'' (Some e)])"
    by (simp add: stringifyData_def)
  show ?thesis
    by (rule exI [where x = "rest @ (case snd (deliver net ?p) of None \<Rightarrow> []
               | Some e \<Rightarrow> [ConsoleError ''[Remote Log] Error preparing or sending log:''
                               (Some e)])"])
       (simp add: remoteLog_eq s d Let_def)
qed

theorem remoteLog_unserializable_witness:
  "remoteLog flaky ''T'' ''c1'' ''Client'' WARN ''QRScanner'' ''hello'' (Some (StringifyThrows ''cyclic'')) =
     ([ConsoleError ''[Remote Log] Error stringifying log data:'' (Some ''cyclic''),
       ConsoleWarn ''[T - c1 - WARN]: [Client - QRScanner] hello [Unserializable data]'',
       SendBeacon ''/log''
         \<lparr> p_clientId = ''c1'', p_source = ''Client'', p_level = ''WARN'',
           p_component = ''QRScanner'', p_message = ''hello'',
           p_dataString = '' [Unserializable data]'' \<rparr>,
       ConsoleWarn ''[Remote Log] sendBeacon returned false, attempting fetch fallback.'',
       Fetch ''/log'' ''POST''
         \<lparr> p_clientId = ''c1'', p_source = ''Client'', p_level = ''WARN'',
           p_component = ''QRScanner'', p_message = ''hello'',
           p_dataString = '' [Unserializable data]'' \<rparr> True,
       ConsoleError ''[Remote Log] Fetch fallback failed:'' (Some ''offline'')], None)"
  using remoteLog_unserializable
          [of flaky "''T''" "''c1''" "''Client''" WARN "''QRScanner''" "''hello''" "''cyclic''"]
  by (simp add: remoteLog_def stringifyData_def deliver_def sendWithFetch_def formatMessage_def
        flaky_def Let_def)

end
